theory Spec2Isabelle
  imports Main "HOL-Library.Sublist"
begin

section \<open>JavaScript values as the server sees them\<close>

text \<open>
  Every tool implementation of \<^verbatim>\<open>MCPServer.ts\<close> takes \<^verbatim>\<open>args: any\<close>: the decoded
  JSON of the request, read with property accesses, truthiness tests, template literals
  and a few array and string methods. The model keeps those values untyped, as the code
  does.

  \<^item> \<open>JObj\<close> lists the own properties of an object in the order JavaScript enumerates
    them, each key once.
  \<^item> \<open>JNum\<close> is a number with an integer value below \<^verbatim>\<open>1e21\<close> in magnitude, which
    JavaScript prints in full. \<open>JReal\<close> is any other finite number, carried by the text
    JavaScript prints for it (\<^verbatim>\<open>6.2\<close>, \<^verbatim>\<open>1e+21\<close>): a larger integer is printed in exponent
    form and is a \<open>JReal\<close>. JSON has no NaN and no infinity.
  \<^item> \<open>JNative\<close> is a built-in function object, met only when a lookup falls through to
    \<^verbatim>\<open>Object.prototype\<close>.
  \<^item> Strings are byte strings in UTF-8, as they travel on the stdio transport.
\<close>

datatype jsval =
    Undefined
  | Null
  | JBool bool
  | JNum int
  | JReal string
  | JStr string
  | JArr "jsval list"
  | JObj "(string \<times> jsval) list"
  | JNative string

datatype js_error = Error string | TypeError string

fun message :: "js_error \<Rightarrow> string" where
  "message (Error m) = m"
| "message (TypeError m) = m"

definition and_then :: "js_error + 'a \<Rightarrow> ('a \<Rightarrow> js_error + 'b) \<Rightarrow> js_error + 'b" where
  "and_then m f = (case m of Inl e \<Rightarrow> Inl e | Inr x \<Rightarrow> f x)"

fun truthy :: "jsval \<Rightarrow> bool" where
  "truthy Undefined = False"
| "truthy Null = False"
| "truthy (JBool b) = b"
| "truthy (JNum n) = (n \<noteq> 0)"
| "truthy (JStr s) = (s \<noteq> [])"
| "truthy (JReal s) = True"
| "truthy (JArr xs) = True"
| "truthy (JObj kvs) = True"
| "truthy (JNative f) = True"

definition or_js :: "jsval \<Rightarrow> jsval \<Rightarrow> jsval" where
  \<comment> \<open>\<^verbatim>\<open>a || b\<close>\<close>
  "or_js a b = (if truthy a then a else b)"

definition nullish :: "jsval \<Rightarrow> bool" where
  "nullish v = (v = Undefined \<or> v = Null)"

definition object_prototype :: "string \<Rightarrow> jsval" where
  \<comment> \<open>What a plain object inherits. \<^verbatim>\<open>__proto__\<close> reads as the prototype itself, an object
      without own \<^verbatim>\<open>toString\<close> key, which is all the server can observe of it.\<close>
  "object_prototype k =
     (if k = ''constructor'' then JNative ''Object''
      else if k \<in> set [''__defineGetter__'', ''__defineSetter__'', ''hasOwnProperty'',
                        ''__lookupGetter__'', ''__lookupSetter__'', ''isPrototypeOf'',
                        ''propertyIsEnumerable'', ''toString'', ''valueOf'',
                        ''toLocaleString''] then JNative k
      else if k = ''__proto__'' then JObj []
      else Undefined)"

definition own_or_inherited :: "(string \<times> jsval) list \<Rightarrow> string \<Rightarrow> jsval" where
  "own_or_inherited kvs k = (case map_of kvs k of Some v \<Rightarrow> v | None \<Rightarrow> object_prototype k)"

definition quoted :: "string \<Rightarrow> string" where
  "quoted k = [CHR 0x27] @ k @ [CHR 0x27]"

text \<open>
  \<open>get_prop v k\<close> is \<^verbatim>\<open>v.k\<close>. On strings, numbers, booleans and arrays the answer
  \<open>Undefined\<close> is right for every name the server reads this way (\<^verbatim>\<open>from\<close>, \<^verbatim>\<open>to\<close>,
  \<^verbatim>\<open>context\<close>, \<^verbatim>\<open>path\<close>, ...): none of them is a member of a built-in prototype.
  The messages of the type errors, here and below, are worded as Node words them.
\<close>

fun get_prop :: "jsval \<Rightarrow> string \<Rightarrow> js_error + jsval" where
  "get_prop Undefined k =
     Inl (TypeError (''Cannot read properties of undefined (reading '' @ quoted k @ '')''))"
| "get_prop Null k =
     Inl (TypeError (''Cannot read properties of null (reading '' @ quoted k @ '')''))"
| "get_prop (JObj kvs) k = Inr (own_or_inherited kvs k)"
| "get_prop v k = Inr Undefined"

definition opt_prop :: "jsval \<Rightarrow> string \<Rightarrow> js_error + jsval" where
  \<comment> \<open>\<^verbatim>\<open>v?.k\<close>\<close>
  "opt_prop v k = (if nullish v then Inr Undefined else get_prop v k)"

subsection \<open>Conversion to string\<close>

definition digit :: "nat \<Rightarrow> char" where
  "digit d = ''0123456789abcdef'' ! d"

function show_nat :: "nat \<Rightarrow> string" where
  "show_nat n = (if n < 10 then [digit n] else show_nat (n div 10) @ [digit (n mod 10)])"
  by pat_completeness auto
termination
  by (relation "measure id") auto

declare show_nat.simps [simp del]

definition show_int :: "int \<Rightarrow> string" where
  "show_int i = (if i < 0 then ''-'' @ show_nat (nat (- i)) else show_nat (nat i))"

text \<open>
  \<open>to_string\<close> is what a template literal does to an interpolated value, \<open>join_js\<close> is
  \<^verbatim>\<open>Array.prototype.join\<close>. A parsed object holds no function, so one with an own
  \<^verbatim>\<open>toString\<close> key has no usable conversion and the conversion throws.
\<close>

fun to_string :: "jsval \<Rightarrow> js_error + string"
  and join_js :: "string \<Rightarrow> jsval list \<Rightarrow> js_error + string" where
  "to_string Undefined = Inr ''undefined''"
| "to_string Null = Inr ''null''"
| "to_string (JBool b) = Inr (if b then ''true'' else ''false'')"
| "to_string (JNum n) = Inr (show_int n)"
| "to_string (JReal s) = Inr s"
| "to_string (JStr s) = Inr s"
| "to_string (JArr xs) = join_js '','' xs"
| "to_string (JObj kvs) =
     (if map_of kvs ''toString'' = None then Inr ''[object Object]''
      else Inl (TypeError ''Cannot convert object to primitive value''))"
| "to_string (JNative f) = Inr (''function '' @ f @ ''() { [native code] }'')"
| "join_js sep [] = Inr []"
| "join_js sep (x # xs) =
     (case (if x = Undefined \<or> x = Null then Inr [] else to_string x) of
        Inl e \<Rightarrow> Inl e
      | Inr s \<Rightarrow>
          (if xs = [] then Inr s
           else case join_js sep xs of Inl e \<Rightarrow> Inl e | Inr r \<Rightarrow> Inr (s @ sep @ r)))"

subsection \<open>\<^verbatim>\<open>JSON.stringify(v, null, 2)\<close>\<close>

definition backslash :: char where
  "backslash = CHR 0x5C"

definition escape_char :: "char \<Rightarrow> string" where
  "escape_char c =
     (if c = CHR 0x22 then [backslash, CHR 0x22]
      else if c = backslash then [backslash, backslash]
      else if c = CHR 0x08 then [backslash, CHR ''b'']
      else if c = CHR 0x0C then [backslash, CHR ''f'']
      else if c = CHR 0x0A then [backslash, CHR ''n'']
      else if c = CHR 0x0D then [backslash, CHR ''r'']
      else if c = CHR 0x09 then [backslash, CHR ''t'']
      else if of_char c < (32::nat)
        then [backslash, CHR ''u'', CHR ''0'', CHR ''0'',
              digit (of_char c div 16), digit (of_char c mod 16)]
      else [c])"

definition quote_json :: "string \<Rightarrow> string" where
  "quote_json s = [CHR 0x22] @ concat (map escape_char s) @ [CHR 0x22]"

fun join_strings :: "string \<Rightarrow> string list \<Rightarrow> string" where
  "join_strings sep [] = []"
| "join_strings sep [x] = x"
| "join_strings sep (x # y # ys) = x @ sep @ join_strings sep (y # ys)"

fun serializable :: "jsval \<Rightarrow> bool" where
  "serializable Undefined = False"
| "serializable (JNative f) = False"
| "serializable v = True"

definition newline :: string where
  "newline = [CHR 0x0A]"

text \<open>
  The first argument of \<open>json_text\<close> is the indentation reached. An array element that
  cannot be serialized prints as \<^verbatim>\<open>null\<close>, an object member that cannot is left out.
\<close>

fun json_text :: "string \<Rightarrow> jsval \<Rightarrow> string"
  and json_elems :: "string \<Rightarrow> jsval list \<Rightarrow> string list"
  and json_members :: "string \<Rightarrow> (string \<times> jsval) list \<Rightarrow> string list" where
  "json_text ind Undefined = ''null''"
| "json_text ind (JNative f) = ''null''"
| "json_text ind Null = ''null''"
| "json_text ind (JBool b) = (if b then ''true'' else ''false'')"
| "json_text ind (JNum n) = show_int n"
| "json_text ind (JReal s) = s"
| "json_text ind (JStr s) = quote_json s"
| "json_text ind (JArr xs) =
     (if xs = [] then ''[]''
      else ''['' @ newline @ ind @ ''  ''
           @ join_strings ('','' @ newline @ ind @ ''  '') (json_elems (ind @ ''  '') xs)
           @ newline @ ind @ '']'')"
| "json_text ind (JObj kvs) =
     (if json_members (ind @ ''  '') kvs = [] then ''{}''
      else ''{'' @ newline @ ind @ ''  ''
           @ join_strings ('','' @ newline @ ind @ ''  '') (json_members (ind @ ''  '') kvs)
           @ newline @ ind @ ''}'')"
| "json_elems ind [] = []"
| "json_elems ind (x # xs) = json_text ind x # json_elems ind xs"
| "json_members ind [] = []"
| "json_members ind ((k, v) # kvs) =
     (if serializable v then [quote_json k @ '': '' @ json_text ind v] else [])
     @ json_members ind kvs"

definition stringify_in_template :: "jsval \<Rightarrow> string" where
  \<comment> \<open>\<^verbatim>\<open>`${JSON.stringify(v, null, 2)}`\<close>: \<^verbatim>\<open>JSON.stringify\<close> gives \<^verbatim>\<open>undefined\<close> for a value
      that cannot be serialized, and the template prints that word.\<close>
  "stringify_in_template v = (if serializable v then json_text [] v else ''undefined'')"

section \<open>The environment of a request\<close>

text \<open>
  What a handler reads besides its arguments: the API key taken from the process
  environment at start (\<^verbatim>\<open>config.apiKey\<close>), the clock (\<^verbatim>\<open>new Date().toISOString()\<close>) and
  the remote side of every HTTP request. \<open>Silent\<close> is a remote that never answers.
\<close>

record http_request =
  req_method :: string
  req_url :: string
  req_body :: jsval
  req_headers :: "(string \<times> string) list"
  req_timeout :: "nat option"

datatype net_reply = Replied int string jsval | Failed string | Silent

record env =
  apiKey :: string
  clock :: string
  remote :: "http_request \<Rightarrow> net_reply"

definition baseUrl :: string where
  "baseUrl = ''https://api.coderabbit.ai/api/v1''"

text \<open>
  The axios client, as its documentation describes it: the promise resolves on a 2xx
  status, rejects with an error carrying the response on any other status, rejects with
  an error without response when the connection fails, and rejects after \<^verbatim>\<open>timeout\<close>
  milliseconds when the request configuration gives a positive \<^verbatim>\<open>timeout\<close>. The default is
  0, no timeout: then the promise of a request that is never answered never settles,
  which is \<open>None\<close> here.
\<close>

datatype axios_settled = Resolved int string jsval | Rejected "(int \<times> jsval) option" string

definition axios :: "(http_request \<Rightarrow> net_reply) \<Rightarrow> http_request \<Rightarrow> axios_settled option" where
  "axios rem req =
     (case rem req of
        Replied status statusText data \<Rightarrow>
          (if 200 \<le> status \<and> status < 300 then Some (Resolved status statusText data)
           else Some (Rejected (Some (status, data))
                        (''Request failed with status code '' @ show_int status)))
      | Failed m \<Rightarrow> Some (Rejected None m)
      | Silent \<Rightarrow>
          (case req_timeout req of
             None \<Rightarrow> None
           | Some t \<Rightarrow>
               (if 0 < t then Some (Rejected None (''timeout of '' @ show_nat t @ ''ms exceeded''))
                else None)))"

text \<open>
  How an \<^verbatim>\<open>async\<close> method ends: it returns, it throws, or its promise stays pending for
  ever. Beside that, the HTTP requests it handed to axios.
\<close>

datatype 'a completion = Returned 'a | Thrown js_error | Pending

definition no_io :: "js_error + 'a \<Rightarrow> http_request list \<times> 'a completion" where
  "no_io r = ([], case r of Inl e \<Rightarrow> Thrown e | Inr x \<Rightarrow> Returned x)"

datatype content_block = Text string

record tool_result =
  content :: "content_block list"
  isError :: bool

definition text_result :: "string \<Rightarrow> tool_result" where
  \<comment> \<open>\<^verbatim>\<open>{ content: [{ type: 'text', text }] }\<close>, without \<^verbatim>\<open>isError\<close>\<close>
  "text_result t = \<lparr>content = [Text t], isError = False\<rparr>"

section \<open>Tool implementations\<close>

definition generateReport :: "env \<Rightarrow> jsval \<Rightarrow> http_request list \<times> tool_result completion" where
  "generateReport env args =
     (if apiKey env = [] then
        ([], Thrown (Error
          ''CodeRabbit API key not configured. Set CODERABBIT_API_KEY environment variable.''))
      else
        case and_then (get_prop args ''from'') (\<lambda>from.
             and_then (get_prop args ''to'') (\<lambda>to. Inr (from, to))) of
          Inl e \<Rightarrow> ([], Thrown e)
        | Inr (from, to) \<Rightarrow>
            let req = \<lparr>req_method = ''POST'',
                       req_url = baseUrl @ ''/report.generate'',
                       req_body = JObj [(''from'', from), (''to'', to)],
                       req_headers = [(''accept'', ''application/json''),
                                      (''x-coderabbitai-api-key'', apiKey env),
                                      (''Content-Type'', ''application/json'')],
                       req_timeout = None\<rparr>
            in ([req],
                case axios (remote env) req of
                  None \<Rightarrow> Pending
                | Some (Resolved status statusText data) \<Rightarrow>
                    Returned (text_result
                      (''CodeRabbit Report Generated Successfully\<newline>\<newline>''
                       @ stringify_in_template data))
                | Some (Rejected response m) \<Rightarrow>
                    (case and_then
                            (case response of
                               None \<Rightarrow> Inr (JStr m)
                             | Some (status, data) \<Rightarrow>
                                 and_then (opt_prop data ''message'') (\<lambda>dm. Inr (or_js dm (JStr m))))
                            to_string of
                       Inl e \<Rightarrow> Thrown e
                     | Inr detail \<Rightarrow>
                         Thrown (Error
                           (''API Error: ''
                            @ (case response of
                                 None \<Rightarrow> ''undefined''
                               | Some (status, data) \<Rightarrow> show_int status)
                            @ '' - '' @ detail)))))"

definition analyzePullRequest :: "env \<Rightarrow> jsval \<Rightarrow> js_error + tool_result" where
  "analyzePullRequest env args =
     and_then (get_prop args ''repository'') (\<lambda>repository.
     and_then (get_prop args ''pullRequestNumber'') (\<lambda>pullRequestNumber.
       let analysis = JObj [
             (''repository'', repository),
             (''pullRequest'', pullRequestNumber),
             (''timestamp'', JStr (clock env)),
             (''suggestions'', JArr [
                JObj [(''type'', JStr ''code_quality''),
                      (''file'', JStr ''src/utils.ts''),
                      (''line'', JNum 42),
                      (''message'', JStr ''Consider adding error handling for this function''),
                      (''severity'', JStr ''medium'')],
                JObj [(''type'', JStr ''documentation''),
                      (''file'', JStr ''src/api.ts''),
                      (''line'', JNum 15),
                      (''message'', JStr ''Missing docstring for this public function''),
                      (''severity'', JStr ''low'')]]),
             (''metrics'', JObj [
                (''linesAdded'', JNum 150),
                (''linesRemoved'', JNum 25),
                (''filesChanged'', JNum 8),
                (''complexityScore'', JReal ''6.2'')])]
       in Inr (text_result
                (''Pull Request Analysis Complete\<newline>\<newline>''
                 @ stringify_in_template analysis))))"

definition replace_newlines :: "string \<Rightarrow> string" where
  \<comment> \<open>\<^verbatim>\<open>s.replace(/\n/g, '\n        ')\<close>\<close>
  "replace_newlines s =
     concat (map (\<lambda>c. if c = CHR 0x0A then ''\<newline>        '' else [c]) s)"

definition instruction_entry :: "jsval \<Rightarrow> js_error + string" where
  \<open>instruction_entry instruction =
     and_then (get_prop instruction ''path'') (\<lambda>path.
     and_then (to_string path) (\<lambda>path_text.
     and_then (get_prop instruction ''instructions'') (\<lambda>instructions.
     and_then
       (case instructions of
          JStr s \<Rightarrow> Inr (replace_newlines s)
        | Undefined \<Rightarrow>
            Inl (TypeError ''Cannot read properties of undefined (reading 'replace')'')
        | Null \<Rightarrow> Inl (TypeError ''Cannot read properties of null (reading 'replace')'')
        | _ \<Rightarrow> Inl (TypeError ''instruction.instructions.replace is not a function''))
       (\<lambda>replaced.
     Inr (''    - path: "'' @ path_text @ ''"\<newline>''
          @ ''      instructions: |\<newline>''
          @ ''        '' @ replaced @ ''\<newline>'')))))\<close>

definition dir_entry :: "jsval \<Rightarrow> js_error + string" where
  \<open>dir_entry dir = and_then (to_string dir) (\<lambda>d. Inr (''        - "'' @ d @ ''"\<newline>''))\<close>

text \<open>
  \<^verbatim>\<open>v.forEach(f)\<close> with a callback that appends to \<^verbatim>\<open>yaml\<close>: only an array has the method.
\<close>

fun for_each :: "(jsval \<Rightarrow> js_error + string) \<Rightarrow> jsval list \<Rightarrow> string \<Rightarrow> js_error + string" where
  "for_each f [] yaml = Inr yaml"
| "for_each f (x # xs) yaml =
     (case f x of Inl e \<Rightarrow> Inl e | Inr s \<Rightarrow> for_each f xs (yaml @ s))"

definition forEach :: "string \<Rightarrow> jsval \<Rightarrow> (jsval \<Rightarrow> js_error + string) \<Rightarrow> string \<Rightarrow> js_error + string" where
  "forEach what v f yaml =
     (case v of
        JArr xs \<Rightarrow> for_each f xs yaml
      | _ \<Rightarrow> Inl (TypeError (what @ ''.forEach is not a function'')))"

definition yaml_list :: "string \<Rightarrow> string \<Rightarrow> jsval \<Rightarrow> string \<Rightarrow> js_error + string" where
  \<comment> \<open>\<^verbatim>\<open>if (v) { yaml += header; v.forEach(dir => yaml += `        - "${dir}"\n`) }\<close>\<close>
  "yaml_list what header v yaml =
     (if truthy v then forEach what v dir_entry (yaml @ header) else Inr yaml)"

definition generateCodeRabbitYaml :: "jsval \<Rightarrow> js_error + string" where
  "generateCodeRabbitYaml config =
     and_then (get_prop config ''pathInstructions'') (\<lambda>pathInstructions.
     and_then
       (if truthy pathInstructions
        then forEach ''config.pathInstructions'' pathInstructions instruction_entry
               (''# CodeRabbit Configuration\<newline>\<newline>''
                @ ''reviews:\<newline>  path_instructions:\<newline>'')
        else Inr ''# CodeRabbit Configuration\<newline>\<newline>'') (\<lambda>yaml1.
     and_then (get_prop config ''tools'') (\<lambda>tools.
     and_then (opt_prop tools ''astGrep'') (\<lambda>astGrep.
       if truthy astGrep then
         and_then (get_prop astGrep ''essentialRules'') (\<lambda>essentialRules.
         and_then (get_prop astGrep ''ruleDirs'') (\<lambda>ruleDirs.
         and_then
           (yaml_list ''config.tools.astGrep.ruleDirs'' ''      rule_dirs:\<newline>'' ruleDirs
              (yaml1 @ ''\<newline>  tools:\<newline>    ast-grep:\<newline>''
               @ (if truthy essentialRules then ''      essential_rules: true\<newline>'' else [])))
           (\<lambda>yaml2.
         and_then (get_prop astGrep ''utilDirs'') (\<lambda>utilDirs.
         and_then
           (yaml_list ''config.tools.astGrep.utilDirs'' ''      util_dirs:\<newline>'' utilDirs yaml2)
           (\<lambda>yaml3.
         and_then (get_prop astGrep ''packages'') (\<lambda>packages.
           yaml_list ''config.tools.astGrep.packages'' ''      packages:\<newline>'' packages yaml3))))))
       else Inr yaml1))))"

definition configureReviewSettings :: "jsval \<Rightarrow> js_error + tool_result" where
  "configureReviewSettings args =
     and_then (get_prop args ''configuration'') (\<lambda>configuration.
     and_then (generateCodeRabbitYaml configuration) (\<lambda>yamlConfig.
     and_then (get_prop args ''repository'') (\<lambda>repository.
     and_then (to_string repository) (\<lambda>repository_text.
       Inr (text_result
             (''CodeRabbit Configuration Generated for '' @ repository_text
              @ ''\<newline>\<newline>```yaml\<newline>'' @ yamlConfig @ ''\<newline>```''))))))"

definition commandMapping :: "jsval \<Rightarrow> js_error + (string \<times> jsval) list" where
  \<open>commandMapping context =
     and_then (to_string (or_js context (JStr ''to follow best practices''))) (\<lambda>rule.
     and_then (to_string (or_js context (JStr
       ''do not complain about lack of error handling here, it is handled higher up the execution stack.'')))
       (\<lambda>hint.
     Inr [(''generate docstrings'', JStr ''@coderabbitai generate docstrings''),
          (''explain reasoning'', JStr
             ''@coderabbitai Why do all of these functions need docstrings? Isn't it obvious enough what they do?''),
          (''remember rule'', JStr (''@coderabbitai always remember '' @ rule)),
          (''provide context'', JStr (''@coderabbitai '' @ hint)),
          (''clarify suggestion'', JStr ''@coderabbitai Please clarify this suggestion'')]))\<close>

definition target_files_note :: "jsval \<Rightarrow> js_error + string" where
  \<comment> \<open>\<^verbatim>\<open>${args.targetFiles ? `\n\nTarget files: ${args.targetFiles.join(', ')}` : ''}\<close>:
      only an array has \<^verbatim>\<open>join\<close>.\<close>
  "target_files_note targetFiles =
     (if truthy targetFiles then
        (case targetFiles of
           JArr files \<Rightarrow>
             and_then (join_js '', '' files) (\<lambda>joined.
               Inr (''\<newline>\<newline>Target files: '' @ joined))
         | _ \<Rightarrow> Inl (TypeError ''args.targetFiles.join is not a function''))
      else Inr [])"

definition sendReviewCommand :: "jsval \<Rightarrow> js_error + tool_result" where
  "sendReviewCommand args =
     and_then (get_prop args ''context'') (\<lambda>context.
     and_then (commandMapping context) (\<lambda>mapping.
     and_then (get_prop args ''command'') (\<lambda>key.
     and_then (to_string key) (\<lambda>key_text.
     and_then (to_string (own_or_inherited mapping key_text)) (\<lambda>command.
     and_then (get_prop args ''targetFiles'') (\<lambda>targetFiles.
     and_then (target_files_note targetFiles) (\<lambda>targets.
       Inr (text_result
             (''CodeRabbit Command: '' @ command
              @ ''\<newline>\<newline>This command can be posted as a comment in your pull request to interact with CodeRabbit.''
              @ targets)))))))))"

definition check_mark :: string where
  \<comment> \<open>U+2705 in UTF-8\<close>
  "check_mark = [CHR 0xE2, CHR 0x9C, CHR 0x85]"

definition cross_mark :: string where
  \<comment> \<open>U+274C in UTF-8\<close>
  "cross_mark = [CHR 0xE2, CHR 0x9D, CHR 0x8C]"

definition checkHealth :: "env \<Rightarrow> jsval \<Rightarrow> http_request list \<times> tool_result completion" where
  "checkHealth env args =
     (case get_prop args ''agentUrl'' of
        Inl e \<Rightarrow> ([], Thrown e)
      | Inr given \<Rightarrow>
          (case to_string (or_js given (JStr ''http://127.0.0.1:8080'')) of
             Inl e \<Rightarrow> ([], Thrown e)
           | Inr agentUrl \<Rightarrow>
               let req = \<lparr>req_method = ''GET'',
                          req_url = agentUrl @ ''/health'',
                          req_body = Undefined,
                          req_headers = [],
                          req_timeout = Some 5000\<rparr>
               in ([req],
                   case axios (remote env) req of
                     None \<Rightarrow> Pending
                   | Some (Resolved status statusText data) \<Rightarrow>
                       Returned (text_result
                         (''CodeRabbit Agent Health Check\<newline>\<newline>Status: '' @ check_mark
                          @ '' Healthy\<newline>URL: '' @ agentUrl
                          @ ''\<newline>Response: '' @ show_int status @ '' '' @ statusText))
                   | Some (Rejected response m) \<Rightarrow>
                       Returned (text_result
                         (''CodeRabbit Agent Health Check\<newline>\<newline>Status: '' @ cross_mark
                          @ '' Unhealthy\<newline>URL: '' @ agentUrl
                          @ ''\<newline>Error: '' @ m)))))"

definition createCustomReport :: "env \<Rightarrow> jsval \<Rightarrow> js_error + tool_result" where
  "createCustomReport env args =
     and_then (get_prop args ''template'') (\<lambda>template.
     and_then (get_prop args ''dateRange'') (\<lambda>dateRange.
     and_then (get_prop args ''filters'') (\<lambda>filters.
       let reportData = JObj [
             (''template'', template),
             (''dateRange'', dateRange),
             (''filters'', or_js filters (JObj [])),
             (''generatedAt'', JStr (clock env)),
             (''summary'', JObj [
                (''totalPullRequests'', JNum 42),
                (''mergedPullRequests'', JNum 38),
                (''openPullRequests'', JNum 4),
                (''averageReviewTime'', JStr ''2.3 days''),
                (''topReviewers'', JArr [JStr ''alice'', JStr ''bob'', JStr ''charlie''])])]
       in Inr (text_result
                (''Custom CodeRabbit Report\<newline>\<newline>'' @ stringify_in_template reportData)))))"

section \<open>The catalog of tools\<close>

text \<open>
  The object literals of the \<^verbatim>\<open>ListToolsRequestSchema\<close> handler, member by member.
\<close>

definition str_schema :: "(string \<times> jsval) list \<Rightarrow> jsval" where
  "str_schema extra = JObj ((''type'', JStr ''string'') # extra)"

definition str_array_schema :: jsval where
  \<comment> \<open>\<^verbatim>\<open>{ type: 'array', items: { type: 'string' } }\<close>\<close>
  "str_array_schema = JObj [(''type'', JStr ''array''), (''items'', str_schema [])]"

definition bool_schema :: jsval where
  "bool_schema = JObj [(''type'', JStr ''boolean'')]"

definition generate_report_tool :: jsval where
  "generate_report_tool = JObj [
     (''name'', JStr ''generate_report''),
     (''description'', JStr ''Generate CodeRabbit on-demand reports for specified date range''),
     (''inputSchema'', JObj [
        (''type'', JStr ''object''),
        (''properties'', JObj [
           (''from'', str_schema [(''format'', JStr ''date''),
                                  (''description'', JStr ''Start date (YYYY-MM-DD)'')]),
           (''to'', str_schema [(''format'', JStr ''date''),
                                (''description'', JStr ''End date (YYYY-MM-DD)'')])]),
        (''required'', JArr [JStr ''from'', JStr ''to''])])]"

definition analyze_pull_request_tool :: jsval where
  "analyze_pull_request_tool = JObj [
     (''name'', JStr ''analyze_pull_request''),
     (''description'', JStr ''Analyze a specific pull request using CodeRabbit''),
     (''inputSchema'', JObj [
        (''type'', JStr ''object''),
        (''properties'', JObj [
           (''repository'', str_schema [(''description'', JStr ''Repository URL or name'')]),
           (''pullRequestNumber'', JObj [(''type'', JStr ''number''),
                                         (''description'', JStr ''Pull request number'')]),
           (''reviewInstructions'',
              str_schema [(''description'', JStr ''Custom review instructions (optional)'')])]),
        (''required'', JArr [JStr ''repository'', JStr ''pullRequestNumber''])])]"

definition configure_review_settings_tool :: jsval where
  "configure_review_settings_tool = JObj [
     (''name'', JStr ''configure_review_settings''),
     (''description'', JStr ''Configure CodeRabbit review settings for a repository''),
     (''inputSchema'', JObj [
        (''type'', JStr ''object''),
        (''properties'', JObj [
           (''repository'', str_schema [(''description'', JStr ''Repository URL or name'')]),
           (''configuration'', JObj [
              (''type'', JStr ''object''),
              (''properties'', JObj [
                 (''pathInstructions'', JObj [
                    (''type'', JStr ''array''),
                    (''items'', JObj [
                       (''type'', JStr ''object''),
                       (''properties'', JObj [
                          (''path'', str_schema []),
                          (''instructions'', str_schema [])])])]),
                 (''tools'', JObj [
                    (''type'', JStr ''object''),
                    (''properties'', JObj [
                       (''astGrep'', JObj [
                          (''type'', JStr ''object''),
                          (''properties'', JObj [
                             (''essentialRules'', bool_schema),
                             (''ruleDirs'', str_array_schema),
                             (''utilDirs'', str_array_schema),
                             (''packages'', str_array_schema)])])])])])])]),
        (''required'', JArr [JStr ''repository'', JStr ''configuration''])])]"

definition send_review_command_tool :: jsval where
  "send_review_command_tool = JObj [
     (''name'', JStr ''send_review_command''),
     (''description'', JStr ''Send a command to CodeRabbit during code review''),
     (''inputSchema'', JObj [
        (''type'', JStr ''object''),
        (''properties'', JObj [
           (''command'', str_schema [
              (''enum'', JArr [JStr ''generate docstrings'',
                               JStr ''explain reasoning'',
                               JStr ''remember rule'',
                               JStr ''provide context'',
                               JStr ''clarify suggestion'']),
              (''description'', JStr ''CodeRabbit command to execute'')]),
           (''context'', str_schema [(''description'', JStr ''Additional context for the command'')]),
           (''targetFiles'', JObj [
              (''type'', JStr ''array''),
              (''items'', str_schema []),
              (''description'', JStr ''Specific files to target (optional)'')])]),
        (''required'', JArr [JStr ''command''])])]"

definition check_health_tool :: jsval where
  "check_health_tool = JObj [
     (''name'', JStr ''check_health''),
     (''description'', JStr ''Check CodeRabbit agent health status''),
     (''inputSchema'', JObj [
        (''type'', JStr ''object''),
        (''properties'', JObj [
           (''agentUrl'', str_schema [
              (''description'', JStr ''CodeRabbit agent URL (default: http://127.0.0.1:8080)''),
              (''default'', JStr ''http://127.0.0.1:8080'')])])])]"

definition create_custom_report_tool :: jsval where
  "create_custom_report_tool = JObj [
     (''name'', JStr ''create_custom_report''),
     (''description'', JStr ''Create a custom report with specific template and filters''),
     (''inputSchema'', JObj [
        (''type'', JStr ''object''),
        (''properties'', JObj [
           (''template'', str_schema [(''description'', JStr ''Custom report template instructions'')]),
           (''dateRange'', JObj [
              (''type'', JStr ''object''),
              (''properties'', JObj [
                 (''from'', str_schema [(''format'', JStr ''date'')]),
                 (''to'', str_schema [(''format'', JStr ''date'')])]),
              (''required'', JArr [JStr ''from'', JStr ''to''])]),
           (''filters'', JObj [
              (''type'', JStr ''object''),
              (''properties'', JObj [
                 (''repositories'', str_array_schema),
                 (''authors'', str_array_schema),
                 (''labels'', str_array_schema),
                 (''includeOnlyMerged'', bool_schema),
                 (''excludeBots'', bool_schema)])])]),
        (''required'', JArr [JStr ''template'', JStr ''dateRange''])])]"

definition tools :: "jsval list" where
  "tools = [
     generate_report_tool,
     analyze_pull_request_tool,
     configure_review_settings_tool,
     send_review_command_tool,
     check_health_tool,
     create_custom_report_tool]"

definition list_tools :: jsval where
  "list_tools = JObj [(''tools'', JArr tools)]"

section \<open>Calling a tool\<close>

text \<open>
  The \<^verbatim>\<open>CallToolRequestSchema\<close> handler: a \<^verbatim>\<open>switch\<close> on the tool name inside a
  \<^verbatim>\<open>try\<close> whose \<^verbatim>\<open>catch\<close> turns whatever was thrown into a result with \<^verbatim>\<open>isError: true\<close>.
  An exchange records, beside the reply, which implementation methods were entered and
  which HTTP requests were handed to axios; a reply \<open>None\<close> is a request that is never
  answered.
\<close>

record 'a exchange =
  invoked :: "string list"
  sent :: "http_request list"
  reply :: "'a option"

definition error_result :: "string \<Rightarrow> js_error \<Rightarrow> tool_result" where
  "error_result name e =
     \<lparr>content = [Text (''Error executing '' @ name @ '': '' @ message e)], isError = True\<rparr>"

definition settle :: "string \<Rightarrow> tool_result completion \<Rightarrow> tool_result option" where
  "settle name c =
     (case c of
        Returned r \<Rightarrow> Some r
      | Thrown e \<Rightarrow> Some (error_result name e)
      | Pending \<Rightarrow> None)"

definition entered :: "string \<Rightarrow> string \<Rightarrow> http_request list \<times> tool_result completion \<Rightarrow> tool_result exchange" where
  "entered name method r = \<lparr>invoked = [method], sent = fst r, reply = settle name (snd r)\<rparr>"

definition call_tool :: "env \<Rightarrow> string \<Rightarrow> jsval \<Rightarrow> tool_result exchange" where
  "call_tool env name args =
     (if name = ''generate_report'' then
        entered name ''generateReport'' (generateReport env args)
      else if name = ''analyze_pull_request'' then
        entered name ''analyzePullRequest'' (no_io (analyzePullRequest env args))
      else if name = ''configure_review_settings'' then
        entered name ''configureReviewSettings'' (no_io (configureReviewSettings args))
      else if name = ''send_review_command'' then
        entered name ''sendReviewCommand'' (no_io (sendReviewCommand args))
      else if name = ''check_health'' then
        entered name ''checkHealth'' (checkHealth env args)
      else if name = ''create_custom_report'' then
        entered name ''createCustomReport'' (no_io (createCustomReport env args))
      else
        \<lparr>invoked = [], sent = [],
         reply = settle name (Thrown (Error (''Unknown tool: '' @ name)))\<rparr>)"

section \<open>Resources\<close>

definition getSampleConfiguration :: string where
  \<open>getSampleConfiguration = join_strings newline [
     ''# .coderabbit.yaml - Sample Configuration'',
     '''',
     ''# Remote configuration (optional)'',
     ''remote_config:'',
     ''  url: "https://your-config-location/.coderabbit.yaml"'',
     '''',
     ''# Review settings'',
     ''reviews:'',
     ''  # Path-based instructions'',
     ''  path_instructions:'',
     ''    - path: "**/*.js"'',
     ''      instructions: |'',
     ''        Review the JavaScript code against the Google JavaScript style guide and point out any mismatches'',
     ''    - path: "tests/**.*"'',
     ''      instructions: |'',
     ''        Review the following unit test code written using the Mocha test library. Ensure that:'',
     ''        - The code adheres to best practices associated with Mocha.'',
     ''        - Descriptive test names are used to clearly convey the intent of each test.'',
     ''    - path: "**/*.ts"'',
     ''      instructions: |'',
     ''        Review TypeScript code for type safety and modern practices.'',
     '''',
     ''  # Tools configuration'',
     ''  tools:'',
     ''    ast-grep:'',
     ''      essential_rules: true'',
     ''      rule_dirs:'',
     ''        - "custom-rules"'',
     ''      util_dirs:'',
     ''        - "utils"'',
     ''      packages:'',
     ''        - "my-awesome-org/my-awesome-package"'',
     '''',
     ''# Code generation settings'',
     ''code_generation:'',
     ''  docstrings:'',
     ''    path_instructions:'',
     ''      - path: "**/*.ts"'',
     ''        instructions: |'',
     ''          End all docstrings with a notice that says "Auto-generated by CodeRabbit.".'',
     ''          Do not omit the closing tags; the docstring must be valid.'']\<close>

definition getCommandsHelp :: string where
  \<open>getCommandsHelp = join_strings newline [
     ''# CodeRabbit Commands Reference'',
     '''',
     ''## Interactive Commands'',
     '''',
     ''Use these commands in pull request comments to interact with CodeRabbit:'',
     '''',
     ''### Code Generation'',
     ''`@coderabbitai generate docstrings`'',
     ''- Automatically generates and commits missing docstrings'',
     '''',
     ''### Review Interaction'',
     ''`@coderabbitai explain reasoning`'',
     ''- Ask CodeRabbit to explain its review suggestions'',
     '''',
     ''### Context Provision'',
     ''`@coderabbitai do not complain about [issue] here, it is handled [elsewhere]`'',
     ''- Provide context for specific code sections'',
     '''',
     ''### Rule Management'',
     ''`@coderabbitai always remember to [rule]`'',
     ''- Set persistent rules for future reviews'',
     '''',
     ''### Clarification'',
     ''`@coderabbitai Why do all of these functions need docstrings?`'',
     ''- Ask for clarification on specific suggestions'',
     '''',
     ''## Configuration Commands'',
     '''',
     ''### Path-based Instructions'',
     ''Configure review instructions for specific file patterns in `.coderabbit.yaml`:'',
     '''',
     ''```yaml'',
     ''reviews:'',
     ''  path_instructions:'',
     ''    - path: "**/*.js"'',
     ''      instructions: |'',
     ''        Review against Google JavaScript style guide'',
     ''```'',
     '''',
     ''### Tool Configuration'',
     ''Enable and configure analysis tools:'',
     '''',
     ''```yaml'',
     ''reviews:'',
     ''  tools:'',
     ''    ast-grep:'',
     ''      essential_rules: true'',
     ''      rule_dirs: ["rules"]'',
     ''```'']\<close>

definition getAstGrepExamples :: string where
  \<open>getAstGrepExamples = join_strings newline [
     ''# AST-Grep Rules Examples'',
     '''',
     ''# Restrict console usage in TypeScript'',
     ''id: no-console-except-error'',
     ''language: typescript'',
     ''message: "No console.log allowed except console.error in catch blocks"'',
     ''rule:'',
     ''  any:'',
     ''    - pattern: console.error($$$)'',
     ''      not:'',
     ''        inside:'',
     ''          kind: catch_clause'',
     ''          stopBy: end'',
     ''    - pattern: console.$METHOD($$$)'',
     ''constraints:'',
     ''  METHOD:'',
     ''    regex: "log|debug|warn"'',
     '''',
     ''---'',
     '''',
     ''# Disallow imports without extensions in JavaScript'',
     ''id: find-import-file'',
     ''language: js'',
     ''message: "Importing files without an extension is not allowed"'',
     ''rule:'',
     ''  regex: "/[^.]+[^/]$/"'',
     ''  kind: string_fragment'',
     ''  any:'',
     ''    - inside:'',
     ''        stopBy: end'',
     ''        kind: import_statement'',
     ''    - inside:'',
     ''        stopBy: end'',
     ''        kind: call_expression'',
     ''        has:'',
     ''          field: function'',
     ''          regex: "^import$"'',
     '''',
     ''---'',
     '''',
     ''# Utility rule for literals'',
     ''utils:'',
     ''  is-literal:'',
     ''    any:'',
     ''      - kind: string'',
     ''      - kind: number'',
     ''      - kind: boolean'',
     '''',
     ''rule:'',
     ''  matches: is-literal'']\<close>

definition getEnvTemplate :: string where
  \<open>getEnvTemplate = join_strings newline [
     ''# CodeRabbit Self-Hosted Environment Configuration'',
     '''',
     ''# LLM Provider Configuration'',
     ''LLM_PROVIDER=openai'',
     ''LLM_TIMEOUT=360000'',
     ''OPENAI_API_KEYS=<your-openai-key>'',
     ''OPENAI_BASE_URL=<optional-base-url>'',
     ''OPENAI_ORG_ID=<optional-org-id>'',
     ''OPENAI_PROJECT_ID=<optional-project-id>'',
     '''',
     ''# Alternative: Azure OpenAI'',
     ''# LLM_PROVIDER=azure-openai'',
     ''# AZURE_OPENAI_ENDPOINT=<endpoint>'',
     ''# AZURE_OPENAI_API_KEY=<key>'',
     ''# AZURE_GPT41MINI_DEPLOYMENT_NAME=<deployment>'',
     ''# AZURE_O4MINI_DEPLOYMENT_NAME=<deployment>'',
     ''# AZURE_O3_DEPLOYMENT_NAME=<deployment>'',
     '''',
     ''# Alternative: AWS Bedrock'',
     ''# LLM_PROVIDER=bedrock-anthropic'',
     ''# AWS_ACCESS_KEY_ID=<key>'',
     ''# AWS_SECRET_ACCESS_KEY=<secret>'',
     ''# AWS_REGION=<region>'',
     '''',
     ''# Alternative: Anthropic'',
     ''# LLM_PROVIDER=anthropic'',
     ''# ANTHROPIC_API_KEYS=<key>'',
     '''',
     ''# System Configuration'',
     ''TEMP_PATH=/cache'',
     '''',
     ''# Platform Configuration (choose one)'',
     ''# For GitHub:'',
     ''SELF_HOSTED=github'',
     ''GH_WEBHOOK_SECRET=<webhook-secret>'',
     ''GITHUB_APP_CLIENT_ID=<client-id>'',
     ''GITHUB_APP_CLIENT_SECRET=<client-secret>'',
     ''GITHUB_APP_ID=<app-id>'',
     ''GITHUB_APP_PEM_FILE=<pem-content>'',
     '''',
     ''# For GitLab:'',
     ''# SELF_HOSTED=gitlab'',
     ''# GITLAB_BOT_TOKEN=<token>'',
     ''# GITLAB_WEBHOOK_SECRET=<secret>'',
     '''',
     ''# For Azure DevOps:'',
     ''# SELF_HOSTED=azure-devops'',
     ''# AZURE_DEVOPS_BOT_TOKEN=<token>'',
     ''# AZURE_DEVOPS_BOT_USERNAME=<username>'',
     '''',
     ''# For Bitbucket:'',
     ''# SELF_HOSTED=bitbucket-server'',
     ''# BITBUCKET_SERVER_URL=<url>/rest'',
     ''# BITBUCKET_SERVER_WEBHOOK_SECRET=<secret>'',
     ''# BITBUCKET_SERVER_BOT_TOKEN=<token>'',
     ''# BITBUCKET_SERVER_BOT_USERNAME=<username>'',
     '''',
     ''# CodeRabbit Licensing'',
     ''CODERABBIT_LICENSE_KEY=<license-key>'',
     ''CODERABBIT_API_KEY=<api-key>'',
     '''',
     ''# Optional Features'',
     ''ENABLE_METRICS=true'',
     ''ENABLE_LEARNINGS=true'',
     ''OBJECT_STORE_URI=<s3://bucket/path>'',
     '''',
     ''# Integration (optional)'',
     ''JIRA_HOST=<jira-url>'',
     ''JIRA_PAT=<jira-token>'',
     ''LINEAR_PAT=<linear-token>'',
     '''',
     ''# Web Search (optional)'',
     ''ENABLE_WEB_SEARCH=true'',
     ''PERPLEXITY_API_KEY=<perplexity-key>'',
     '''',
     ''# Proxy Configuration (optional)'',
     ''HTTP_PROXY=<http-proxy>'',
     ''HTTPS_PROXY=<https-proxy>'',
     ''NO_PROXY=<no-proxy>'']\<close>

definition resource :: "string \<Rightarrow> string \<Rightarrow> string \<Rightarrow> string \<Rightarrow> jsval" where
  "resource uri name description mimeType = JObj [
     (''uri'', JStr uri),
     (''name'', JStr name),
     (''description'', JStr description),
     (''mimeType'', JStr mimeType)]"

definition resources :: "jsval list" where
  "resources = [
     resource ''coderabbit://config/sample'' ''Sample CodeRabbit Configuration''
       ''Example .coderabbit.yaml configuration file'' ''application/yaml'',
     resource ''coderabbit://commands/help'' ''CodeRabbit Commands Reference''
       ''Available CodeRabbit commands and their usage'' ''text/markdown'',
     resource ''coderabbit://tools/astgrep'' ''AST-Grep Rules Examples''
       ''Example AST-Grep rules for code analysis'' ''application/yaml'',
     resource ''coderabbit://env/template'' ''Environment Configuration Template''
       ''Template for CodeRabbit self-hosted .env file'' ''text/plain'']"

definition list_resources :: jsval where
  "list_resources = JObj [(''resources'', JArr resources)]"

record resource_content =
  res_uri :: string
  res_mimeType :: string
  res_text :: string

definition read_resource :: "string \<Rightarrow> js_error + resource_content list" where
  "read_resource u =
     (if u = ''coderabbit://config/sample'' then
        Inr [\<lparr>res_uri = u, res_mimeType = ''application/yaml'', res_text = getSampleConfiguration\<rparr>]
      else if u = ''coderabbit://commands/help'' then
        Inr [\<lparr>res_uri = u, res_mimeType = ''text/markdown'', res_text = getCommandsHelp\<rparr>]
      else if u = ''coderabbit://tools/astgrep'' then
        Inr [\<lparr>res_uri = u, res_mimeType = ''application/yaml'', res_text = getAstGrepExamples\<rparr>]
      else if u = ''coderabbit://env/template'' then
        Inr [\<lparr>res_uri = u, res_mimeType = ''text/plain'', res_text = getEnvTemplate\<rparr>]
      else Inl (Error (''Unknown resource: '' @ u)))"

section \<open>The server\<close>

text \<open>
  The four request handlers registered on the SDK server. It keeps no state between
  requests, so a run of the server is \<open>map (serve env)\<close> over the requests, each with the
  environment it meets. An error thrown by a handler and not caught there is answered by
  the SDK as a protocol error.
\<close>

datatype request =
    ListTools
  | CallTool string jsval
  | ListResources
  | ReadResource string

datatype response =
    Listing jsval
  | ToolResult tool_result
  | Contents "resource_content list"
  | ProtocolError js_error

definition serve :: "env \<Rightarrow> request \<Rightarrow> response exchange" where
  "serve env r =
     (case r of
        ListTools \<Rightarrow> \<lparr>invoked = [], sent = [], reply = Some (Listing list_tools)\<rparr>
      | CallTool name args \<Rightarrow>
          (let x = call_tool env name args
           in \<lparr>invoked = invoked x, sent = sent x, reply = map_option ToolResult (reply x)\<rparr>)
      | ListResources \<Rightarrow> \<lparr>invoked = [], sent = [], reply = Some (Listing list_resources)\<rparr>
      | ReadResource u \<Rightarrow>
          \<lparr>invoked = [], sent = [],
           reply = Some (case read_resource u of
                           Inl e \<Rightarrow> ProtocolError e
                         | Inr c \<Rightarrow> Contents c)\<rparr>)"

section \<open>Vocabulary of the properties\<close>

definition required_fields :: "jsval \<Rightarrow> js_error + jsval" where
  \<comment> \<open>\<^verbatim>\<open>tool.inputSchema.required\<close>\<close>
  "required_fields tool =
     and_then (get_prop tool ''inputSchema'') (\<lambda>schema. get_prop schema ''required'')"

text \<open>
  A configuration of the shape the input schema of configure_review_settings declares:
  \<^verbatim>\<open>pathInstructions\<close>, a list of objects with the string members \<^verbatim>\<open>path\<close> and
  \<^verbatim>\<open>instructions\<close>, and \<^verbatim>\<open>tools.astGrep\<close> with \<^verbatim>\<open>essentialRules\<close>, \<^verbatim>\<open>ruleDirs\<close>, \<^verbatim>\<open>utilDirs\<close>
  and \<^verbatim>\<open>packages\<close>. The schema requires none of these members, so each is optional here;
  \<open>configuration_json\<close> is the JSON value that carries the configuration.
\<close>

datatype path_instruction = PathInstruction "string option" "string option"

datatype ast_grep =
  AstGrep "bool option" "string list option" "string list option" "string list option"

datatype review_tools = ReviewTools "ast_grep option"

datatype review_configuration =
  ReviewConfiguration "path_instruction list option" "review_tools option"

fun field :: "string \<Rightarrow> ('a \<Rightarrow> jsval) \<Rightarrow> 'a option \<Rightarrow> (string \<times> jsval) list" where
  "field k f None = []"
| "field k f (Some x) = [(k, f x)]"

fun path_instruction_json :: "path_instruction \<Rightarrow> jsval" where
  "path_instruction_json (PathInstruction p i) =
     JObj (field ''path'' JStr p @ field ''instructions'' JStr i)"

definition strings_json :: "string list \<Rightarrow> jsval" where
  "strings_json xs = JArr (map JStr xs)"

fun ast_grep_json :: "ast_grep \<Rightarrow> jsval" where
  "ast_grep_json (AstGrep e r u p) =
     JObj (field ''essentialRules'' JBool e @ field ''ruleDirs'' strings_json r
           @ field ''utilDirs'' strings_json u @ field ''packages'' strings_json p)"

fun review_tools_json :: "review_tools \<Rightarrow> jsval" where
  "review_tools_json (ReviewTools a) = JObj (field ''astGrep'' ast_grep_json a)"

fun configuration_json :: "review_configuration \<Rightarrow> jsval" where
  "configuration_json (ReviewConfiguration pis tls) =
     JObj (field ''pathInstructions'' (\<lambda>xs. JArr (map path_instruction_json xs)) pis
           @ field ''tools'' review_tools_json tls)"

text \<open>
  A path instruction that carries its instructions, with or without a path.
\<close>

fun instructed :: "string option \<times> string \<Rightarrow> path_instruction" where
  "instructed (p, i) = PathInstruction p (Some i)"

text \<open>
  The document expected for a configuration whose path instructions all carry their
  instructions, piece by piece. The instructions are cut into their lines, and the lines
  are written one below the other, each after the first behind eight spaces; an entry
  without path is written with the word \<^verbatim>\<open>undefined\<close> as its path; the line
  \<^verbatim>\<open>essential_rules: true\<close> is written when \<^verbatim>\<open>essentialRules\<close> is true and not otherwise.
\<close>

fun lines_of :: "string \<Rightarrow> string list" where
  "lines_of [] = [[]]"
| "lines_of (c # cs) =
     (if c = CHR 0x0A then [] # lines_of cs
      else case lines_of cs of [] \<Rightarrow> [[c]] | l # ls \<Rightarrow> (c # l) # ls)"

fun instruction_block :: "string option \<times> string \<Rightarrow> string" where
  \<open>instruction_block (p, i) =
     ''    - path: "'' @ (case p of None \<Rightarrow> ''undefined'' | Some s \<Rightarrow> s) @ ''"\<newline>''
     @ ''      instructions: |\<newline>''
     @ ''        '' @ join_strings ''\<newline>        '' (lines_of i) @ ''\<newline>''\<close>







text \<open>
  Sample remotes: one that refuses the connection, one that accepts it and never answers.
\<close>

definition refusing :: "http_request \<Rightarrow> net_reply" where
  "refusing req = Failed ''connect ECONNREFUSED''"

definition mute :: "http_request \<Rightarrow> net_reply" where
  "mute req = Silent"

section \<open>Dispatch without validation\<close>

text \<open>
  C1, as amended. A call of generate_report whose argument object has no \<^verbatim>\<open>to\<close> member is
  dispatched to \<^verbatim>\<open>generateReport\<close> like any other: nothing checks the arguments against
  the input schema. With no API key configured the method throws before any network
  access and the reply is an error-shaped result saying so; with an API key configured
  one POST to the report endpoint is sent, its body carrying \<^verbatim>\<open>to: undefined\<close>.
\<close>

theorem missing_to_dispatched:
  assumes "map_of kvs ''to'' = None"
  shows "invoked (call_tool env ''generate_report'' (JObj kvs)) = [''generateReport'']
    \<and> (apiKey env = [] \<longrightarrow>
         call_tool env ''generate_report'' (JObj kvs) =
           \<lparr>invoked = [''generateReport''], sent = [],
            reply = Some \<lparr>content = [Text
              ''Error executing generate_report: CodeRabbit API key not configured. Set CODERABBIT_API_KEY environment variable.''],
              isError = True\<rparr>\<rparr>)
    \<and> (apiKey env \<noteq> [] \<longrightarrow>
         sent (call_tool env ''generate_report'' (JObj kvs)) =
           [\<lparr>req_method = ''POST'',
             req_url = ''https://api.coderabbit.ai/api/v1/report.generate'',
             req_body = JObj [(''from'', own_or_inherited kvs ''from''), (''to'', Undefined)],
             req_headers = [(''accept'', ''application/json''),
                            (''x-coderabbitai-api-key'', apiKey env),
                            (''Content-Type'', ''application/json'')],
             req_timeout = None\<rparr>])"
  using assms
  by (simp add: call_tool_def entered_def settle_def generateReport_def and_then_def
      own_or_inherited_def baseUrl_def object_prototype_def error_result_def Let_def)

theorem missing_to_dispatched_witness:
  "invoked (call_tool \<lparr>apiKey = [], clock = ''2024-05-01T10:00:00.000Z'', remote = refusing\<rparr> ''generate_report'' (JObj [(''from'', JStr ''2024-04-01'')])) =
     [''generateReport'']
   \<and> call_tool \<lparr>apiKey = [], clock = ''2024-05-01T10:00:00.000Z'', remote = refusing\<rparr> ''generate_report'' (JObj [(''from'', JStr ''2024-04-01'')]) =
       \<lparr>invoked = [''generateReport''], sent = [],
        reply = Some \<lparr>content = [Text
          ''Error executing generate_report: CodeRabbit API key not configured. Set CODERABBIT_API_KEY environment variable.''],
          isError = True\<rparr>\<rparr>
   \<and> sent (call_tool \<lparr>apiKey = ''cr-key'', clock = ''2024-05-01T10:00:00.000Z'', remote = refusing\<rparr> ''generate_report'' (JObj [(''from'', JStr ''2024-04-01'')])) =
       [\<lparr>req_method = ''POST'',
         req_url = ''https://api.coderabbit.ai/api/v1/report.generate'',
         req_body = JObj [(''from'', JStr ''2024-04-01''), (''to'', Undefined)],
         req_headers = [(''accept'', ''application/json''),
                        (''x-coderabbitai-api-key'', ''cr-key''),
                        (''Content-Type'', ''application/json'')],
         req_timeout = None\<rparr>]"
  using missing_to_dispatched [of "[(''from'', JStr ''2024-04-01'')]" "\<lparr>apiKey = [], clock = ''2024-05-01T10:00:00.000Z'', remote = refusing\<rparr>"]
    missing_to_dispatched [of "[(''from'', JStr ''2024-04-01'')]" "\<lparr>apiKey = ''cr-key'', clock = ''2024-05-01T10:00:00.000Z'', remote = refusing\<rparr>"]
  by (simp add: own_or_inherited_def)

text \<open>
  The claim as stated fails: with an API key and a remote that refuses the connection,
  the call without \<^verbatim>\<open>to\<close> enters \<^verbatim>\<open>generateReport\<close> and the POST is sent.
\<close>

theorem missing_to_reaches_upstream:
  "call_tool \<lparr>apiKey = ''cr-key'', clock = ''2024-05-01T10:00:00.000Z'', remote = refusing\<rparr> ''generate_report'' (JObj [(''from'', JStr ''2024-04-01'')]) =
     \<lparr>invoked = [''generateReport''],
      sent = [\<lparr>req_method = ''POST'',
               req_url = ''https://api.coderabbit.ai/api/v1/report.generate'',
               req_body = JObj [(''from'', JStr ''2024-04-01''), (''to'', Undefined)],
               req_headers = [(''accept'', ''application/json''),
                              (''x-coderabbitai-api-key'', ''cr-key''),
                              (''Content-Type'', ''application/json'')],
               req_timeout = None\<rparr>],
      reply = Some \<lparr>content = [Text
                 ''Error executing generate_report: API Error: undefined - connect ECONNREFUSED''],
               isError = True\<rparr>\<rparr>"
  by (simp add: call_tool_def entered_def settle_def generateReport_def and_then_def
      own_or_inherited_def baseUrl_def axios_def refusing_def object_prototype_def
      error_result_def)

section \<open>Timeouts\<close>

text \<open>
  The health probe carries \<^verbatim>\<open>timeout: 5000\<close>, so a call of check_health is always
  answered.
\<close>

lemma check_health_settles: "reply (call_tool env ''check_health'' args) \<noteq> None"
proof -
  have "snd (checkHealth env args) \<noteq> Pending"
    by (auto simp: checkHealth_def Let_def axios_def
        split: sum.splits option.splits axios_settled.splits net_reply.splits if_splits)
  then show ?thesis
    by (simp add: call_tool_def entered_def settle_def split: completion.splits)
qed

lemma check_health_timeout:
  "req \<in> set (sent (call_tool env ''check_health'' args)) \<Longrightarrow> req_timeout req = Some 5000"
  by (auto simp: call_tool_def entered_def checkHealth_def Let_def split: sum.splits)

lemma generate_report_no_timeout:
  "req \<in> set (sent (call_tool env ''generate_report'' args)) \<Longrightarrow> req_timeout req = None"
  by (auto simp: call_tool_def entered_def generateReport_def Let_def and_then_def
      split: sum.splits if_splits)

text \<open>
  C2, where the code departs from it. The POST of \<^verbatim>\<open>generateReport\<close> is configured with
  headers only: against a remote that accepts the connection and never answers, the call
  of generate_report is never answered.
\<close>

theorem generate_report_never_settles:
  "call_tool \<lparr>apiKey = ''cr-key'', clock = ''2024-05-01T10:00:00.000Z'', remote = mute\<rparr> ''generate_report''
     (JObj [(''from'', JStr ''2024-04-01''), (''to'', JStr ''2024-04-30'')]) =
     \<lparr>invoked = [''generateReport''],
      sent = [\<lparr>req_method = ''POST'',
               req_url = ''https://api.coderabbit.ai/api/v1/report.generate'',
               req_body = JObj [(''from'', JStr ''2024-04-01''), (''to'', JStr ''2024-04-30'')],
               req_headers = [(''accept'', ''application/json''),
                              (''x-coderabbitai-api-key'', ''cr-key''),
                              (''Content-Type'', ''application/json'')],
               req_timeout = None\<rparr>],
      reply = None\<rparr>"
  by (simp add: call_tool_def entered_def settle_def generateReport_def and_then_def
      own_or_inherited_def baseUrl_def axios_def mute_def)

section \<open>The configuration document\<close>

lemma lines_of_nonempty: "lines_of s \<noteq> []"
  by (induction s) (auto split: list.splits)

lemma replace_newlines_lines:
  "replace_newlines s = join_strings ''\<newline>        '' (lines_of s)"
proof (induction s)
  case Nil
  then show ?case by (simp add: replace_newlines_def)
next
  case (Cons c cs)
  obtain l ls where ls: "lines_of cs = l # ls"
    using lines_of_nonempty [of cs] by (cases "lines_of cs") auto
  have step: "replace_newlines (c # cs) =
      (if c = CHR 0x0A then ''\<newline>        '' else [c]) @ replace_newlines cs"
    by (simp add: replace_newlines_def)
  show ?case
  proof (cases "c = CHR 0x0A")
    case True
    with Cons ls step show ?thesis by simp
  next
    case False
    with Cons ls step show ?thesis by (cases ls) simp_all
  qed
qed

lemma entry_rendered:
  "instruction_entry (path_instruction_json (instructed x)) = Inr (instruction_block x)"
proof (cases x)
  case (Pair p i)
  then show ?thesis
    by (cases p)
      (simp_all add: instruction_entry_def and_then_def own_or_inherited_def
        object_prototype_def replace_newlines_lines)
qed










text \<open>
  An entry without instructions has no place in any document: the method throws at it.
\<close>

lemma entry_without_instructions:
  "instruction_entry (path_instruction_json (PathInstruction p None)) =
     Inl (TypeError ''Cannot read properties of undefined (reading 'replace')'')"
  by (cases p)
    (simp_all add: instruction_entry_def and_then_def own_or_inherited_def object_prototype_def)

lemma entry_throws_or_renders:
  "instruction_entry (path_instruction_json x) =
     Inl (TypeError ''Cannot read properties of undefined (reading 'replace')'')
   \<or> (\<exists>s. instruction_entry (path_instruction_json x) = Inr s)"
proof (cases x)
  case (PathInstruction p i)
  show ?thesis
  proof (cases i)
    case None
    with PathInstruction show ?thesis by (simp only: entry_without_instructions) simp
  next
    case (Some t)
    with PathInstruction have "x = instructed (p, t)" by simp
    then show ?thesis by (simp only: entry_rendered) simp
  qed
qed

lemma for_each_without_instructions:
  "PathInstruction p None \<in> set xs \<Longrightarrow>
   for_each instruction_entry (map path_instruction_json xs) acc =
     Inl (TypeError ''Cannot read properties of undefined (reading 'replace')'')"
proof (induction xs arbitrary: acc)
  case Nil
  then show ?case by simp
next
  case (Cons x xs)
  show ?case
  proof (cases "x = PathInstruction p None")
    case True
    then show ?thesis
      by (simp add: entry_without_instructions del: path_instruction_json.simps)
  next
    case False
    with Cons.prems have "PathInstruction p None \<in> set xs" by simp
    from Cons.IH [OF this] entry_throws_or_renders [of x] show ?thesis by auto
  qed
qed

lemma configuration_without_instructions:
  assumes "PathInstruction p None \<in> set xs"
  shows "generateCodeRabbitYaml (configuration_json (ReviewConfiguration (Some xs) tls)) =
     Inl (TypeError ''Cannot read properties of undefined (reading 'replace')'')"
  by (simp add: generateCodeRabbitYaml_def and_then_def own_or_inherited_def forEach_def
      for_each_without_instructions [OF assms])









section \<open>The pull request analysis\<close>

text \<open>
  The quoting of a JSON string is injective, so two payloads that differ in nothing but
  the quoted timestamp are equal only when the timestamps are.
\<close>

lemma digit_inj: "d < 16 \<Longrightarrow> e < 16 \<Longrightarrow> digit d = digit e \<Longrightarrow> d = e"
proof -
  assume d: "d < 16" and e: "e < 16" and eq: "digit d = digit e"
  have dist: "distinct ''0123456789abcdef''" by simp
  have len: "length ''0123456789abcdef'' = 16" by simp
  from eq have "''0123456789abcdef'' ! d = ''0123456789abcdef'' ! e"
    by (simp only: digit_def)
  with dist d e len show "d = e"
    by (metis nth_eq_iff_index_eq)
qed

lemma control_char_inj:
  assumes "of_char a < (32::nat)" "of_char b < (32::nat)"
    and "digit (of_char a div 16) = digit (of_char b div 16)"
    and "digit (of_char a mod 16) = digit (of_char b mod 16)"
  shows "a = b"
proof -
  have "(of_char a :: nat) div 16 = of_char b div 16"
    using assms(1-3) by (intro digit_inj) auto
  moreover have "(of_char a :: nat) mod 16 = of_char b mod 16"
    using assms(4) by (intro digit_inj) auto
  ultimately have "(of_char a :: nat) = of_char b"
    by (metis div_mult_mod_eq)
  then show "a = b" by simp
qed

lemma escape_char_nonempty: "escape_char c \<noteq> []"
  by (simp add: escape_char_def)

lemma escape_char_inj:
  assumes "escape_char a @ u = escape_char b @ v"
  shows "a = b \<and> u = v"
  using assms
  by (simp add: escape_char_def backslash_def split: if_splits) (auto dest: control_char_inj)

lemma escape_inj:
  "concat (map escape_char s) = concat (map escape_char t) \<Longrightarrow> s = t"
proof (induction s arbitrary: t)
  case Nil
  then show ?case
    by (cases t) (simp_all add: escape_char_nonempty)
next
  case (Cons a s)
  show ?case
  proof (cases t)
    case Nil
    with Cons.prems show ?thesis by (simp add: escape_char_nonempty)
  next
    case (Cons b t')
    with Cons.prems have "escape_char a @ concat (map escape_char s)
        = escape_char b @ concat (map escape_char t')" by simp
    from escape_char_inj [OF this] Cons.IH Cons show ?thesis by simp
  qed
qed

lemma quote_json_inj: "quote_json s = quote_json t \<Longrightarrow> s = t"
  by (simp add: quote_json_def escape_inj)

lemma join_strings_append:
  "ys \<noteq> [] \<Longrightarrow>
   join_strings sep (xs @ ys) = concat (map (\<lambda>x. x @ sep) xs) @ join_strings sep ys"
proof (induction xs)
  case Nil
  then show ?case by simp
next
  case (Cons x xs)
  then obtain z zs where "xs @ ys = z # zs" by (cases "xs @ ys") auto
  with Cons show ?case by simp
qed

lemma analysis_text:
  assumes "get_prop args ''repository'' = Inr r"
    and "get_prop args ''pullRequestNumber'' = Inr p"
  shows "\<exists>before after. \<forall>env. analyzePullRequest env args =
           Inr (text_result (before @ quote_json (clock env) @ after))"
proof -
  define suggestions where "suggestions = JArr [
        JObj [(''type'', JStr ''code_quality''),
              (''file'', JStr ''src/utils.ts''),
              (''line'', JNum 42),
              (''message'', JStr ''Consider adding error handling for this function''),
              (''severity'', JStr ''medium'')],
        JObj [(''type'', JStr ''documentation''),
              (''file'', JStr ''src/api.ts''),
              (''line'', JNum 15),
              (''message'', JStr ''Missing docstring for this public function''),
              (''severity'', JStr ''low'')]]"
  define metrics where "metrics = JObj [
        (''linesAdded'', JNum 150),
        (''linesRemoved'', JNum 25),
        (''filesChanged'', JNum 8),
        (''complexityScore'', JReal ''6.2'')]"
  define given where "given =
    (if serializable r then [quote_json ''repository'' @ '': '' @ json_text ''  '' r] else [])
    @ (if serializable p then [quote_json ''pullRequest'' @ '': '' @ json_text ''  '' p] else [])"
  define sep where "sep = '','' @ newline @ ''  ''"
  define fixed where "fixed =
    [quote_json ''suggestions'' @ '': '' @ json_text ''  '' suggestions,
     quote_json ''metrics'' @ '': '' @ json_text ''  '' metrics]"
  have ser: "serializable suggestions" "serializable metrics"
    by (simp_all add: suggestions_def metrics_def)
  have members: "\<And>c. json_members ''  ''
      [(''repository'', r), (''pullRequest'', p), (''timestamp'', JStr c),
       (''suggestions'', suggestions), (''metrics'', metrics)]
      = given @ (quote_json ''timestamp'' @ '': '' @ quote_json c) # fixed"
    by (simp add: given_def fixed_def ser)
  have joined: "\<And>x. join_strings sep (given @ x # fixed)
      = concat (map (\<lambda>y. y @ sep) given) @ x @ sep @ join_strings sep fixed"
    by (simp add: join_strings_append fixed_def)
  have obj: "\<And>c. json_text []
       (JObj [(''repository'', r), (''pullRequest'', p), (''timestamp'', JStr c),
              (''suggestions'', suggestions), (''metrics'', metrics)])
      = ''{'' @ newline @ ''  ''
        @ join_strings sep (given @ (quote_json ''timestamp'' @ '': '' @ quote_json c) # fixed)
        @ newline @ ''}''"
    by (simp add: members sep_def del: json_members.simps)
  have "\<And>env. analyzePullRequest env args =
      Inr (text_result
        ((''Pull Request Analysis Complete\<newline>\<newline>'' @ ''{'' @ newline @ ''  ''
          @ concat (map (\<lambda>x. x @ sep) given) @ quote_json ''timestamp'' @ '': '')
         @ quote_json (clock env)
         @ (sep @ join_strings sep fixed @ newline @ ''}'')))"
    by (simp add: analyzePullRequest_def assms and_then_def stringify_in_template_def
        suggestions_def [symmetric] metrics_def [symmetric] obj joined
        del: json_text.simps json_members.simps)
  then show ?thesis by blast
qed

text \<open>
  C4, as amended. \<^verbatim>\<open>analyzePullRequest\<close> sends no request, and its answer is fixed by the
  argument object together with the clock reading it stamps into the payload: two calls
  with the same arguments at the same clock reading are answered identically, whatever
  the API key and the remote are; and two calls with the same argument object are
  answered identically only when their clock readings are equal.
\<close>

theorem analysis_fixed_by_arguments_and_clock:
  "(clock env = clock env' \<longrightarrow>
      call_tool env ''analyze_pull_request'' args = call_tool env' ''analyze_pull_request'' args)
   \<and> sent (call_tool env ''analyze_pull_request'' args) = []
   \<and> ((call_tool env ''analyze_pull_request'' (JObj kvs) =
         call_tool env' ''analyze_pull_request'' (JObj kvs))
       = (clock env = clock env'))"
proof (intro conjI impI)
  assume "clock env = clock env'"
  then show "call_tool env ''analyze_pull_request'' args =
      call_tool env' ''analyze_pull_request'' args"
    by (simp add: call_tool_def entered_def no_io_def analyzePullRequest_def)
next
  show "sent (call_tool env ''analyze_pull_request'' args) = []"
    by (simp add: call_tool_def entered_def no_io_def)
next
  have "\<exists>before after. \<forall>e. analyzePullRequest e (JObj kvs) =
      Inr (text_result (before @ quote_json (clock e) @ after))"
    by (rule analysis_text) simp_all
  then obtain before after where shape: "\<And>e. analyzePullRequest e (JObj kvs) =
      Inr (text_result (before @ quote_json (clock e) @ after))"
    by blast
  show "(call_tool env ''analyze_pull_request'' (JObj kvs) =
         call_tool env' ''analyze_pull_request'' (JObj kvs))
       = (clock env = clock env')"
    by (auto simp: call_tool_def entered_def no_io_def settle_def shape text_result_def
        dest: quote_json_inj)
qed

theorem analysis_fixed_by_arguments_and_clock_witness:
  "call_tool \<lparr>apiKey = ''cr-key'', clock = ''2024-05-01T10:00:00.000Z'', remote = mute\<rparr> ''analyze_pull_request''
     (JObj [(''repository'', JStr ''acme/shop''), (''pullRequestNumber'', JNum 7)]) =
   call_tool \<lparr>apiKey = [], clock = ''2024-05-01T10:00:00.000Z'', remote = refusing\<rparr> ''analyze_pull_request''
     (JObj [(''repository'', JStr ''acme/shop''), (''pullRequestNumber'', JNum 7)])
   \<and> sent (call_tool \<lparr>apiKey = ''cr-key'', clock = ''2024-05-01T10:00:00.000Z'', remote = mute\<rparr> ''analyze_pull_request''
        (JObj [(''repository'', JStr ''acme/shop''), (''pullRequestNumber'', JNum 7)])) = []
   \<and> call_tool \<lparr>apiKey = ''cr-key'', clock = ''2024-05-01T10:00:00.000Z'', remote = mute\<rparr> ''analyze_pull_request''
        (JObj [(''repository'', JStr ''acme/shop''), (''pullRequestNumber'', JNum 7)]) \<noteq>
     call_tool \<lparr>apiKey = ''cr-key'', clock = ''2024-05-01T10:00:00.001Z'', remote = mute\<rparr> ''analyze_pull_request''
        (JObj [(''repository'', JStr ''acme/shop''), (''pullRequestNumber'', JNum 7)])"
proof -
  note same = analysis_fixed_by_arguments_and_clock
      [of "\<lparr>apiKey = ''cr-key'', clock = ''2024-05-01T10:00:00.000Z'', remote = mute\<rparr>" "\<lparr>apiKey = [], clock = ''2024-05-01T10:00:00.000Z'', remote = refusing\<rparr>"
          "JObj [(''repository'', JStr ''acme/shop''), (''pullRequestNumber'', JNum 7)]"
          "[(''repository'', JStr ''acme/shop''), (''pullRequestNumber'', JNum 7)]"]
  note other = analysis_fixed_by_arguments_and_clock
      [of "\<lparr>apiKey = ''cr-key'', clock = ''2024-05-01T10:00:00.000Z'', remote = mute\<rparr>" "\<lparr>apiKey = ''cr-key'', clock = ''2024-05-01T10:00:00.001Z'', remote = mute\<rparr>"
          "JObj [(''repository'', JStr ''acme/shop''), (''pullRequestNumber'', JNum 7)]"
          "[(''repository'', JStr ''acme/shop''), (''pullRequestNumber'', JNum 7)]"]
  from same have 1: "call_tool \<lparr>apiKey = ''cr-key'', clock = ''2024-05-01T10:00:00.000Z'', remote = mute\<rparr> ''analyze_pull_request''
       (JObj [(''repository'', JStr ''acme/shop''), (''pullRequestNumber'', JNum 7)]) =
     call_tool \<lparr>apiKey = [], clock = ''2024-05-01T10:00:00.000Z'', remote = refusing\<rparr> ''analyze_pull_request''
       (JObj [(''repository'', JStr ''acme/shop''), (''pullRequestNumber'', JNum 7)])"
    by simp
  have 2: "sent (call_tool \<lparr>apiKey = ''cr-key'', clock = ''2024-05-01T10:00:00.000Z'', remote = mute\<rparr> ''analyze_pull_request''
       (JObj [(''repository'', JStr ''acme/shop''), (''pullRequestNumber'', JNum 7)])) = []"
    by (rule same [THEN conjunct2, THEN conjunct1])
  from other have 3: "call_tool \<lparr>apiKey = ''cr-key'', clock = ''2024-05-01T10:00:00.000Z'', remote = mute\<rparr> ''analyze_pull_request''
       (JObj [(''repository'', JStr ''acme/shop''), (''pullRequestNumber'', JNum 7)]) \<noteq>
     call_tool \<lparr>apiKey = ''cr-key'', clock = ''2024-05-01T10:00:00.001Z'', remote = mute\<rparr> ''analyze_pull_request''
       (JObj [(''repository'', JStr ''acme/shop''), (''pullRequestNumber'', JNum 7)])"
    by simp
  from 1 2 3 show ?thesis by (intro conjI)
qed

text \<open>
  The claim as stated fails: the same argument object, a millisecond apart, gets two
  different payloads.
\<close>

theorem analysis_differs_with_clock:
  "reply (call_tool
      \<lparr>apiKey = ''cr-key'', clock = ''2024-05-01T10:00:00.000Z'', remote = mute\<rparr>
      ''analyze_pull_request''
      (JObj [(''repository'', JStr ''acme/shop''), (''pullRequestNumber'', JNum 7)]))
   \<noteq> reply (call_tool
      \<lparr>apiKey = ''cr-key'', clock = ''2024-05-01T10:00:00.001Z'', remote = mute\<rparr>
      ''analyze_pull_request''
      (JObj [(''repository'', JStr ''acme/shop''), (''pullRequestNumber'', JNum 7)]))"
  by (simp add: call_tool_def entered_def no_io_def analyzePullRequest_def settle_def
      and_then_def own_or_inherited_def text_result_def stringify_in_template_def newline_def
      quote_json_def escape_char_def backslash_def)

section \<open>Unknown tools\<close>

text \<open>
  C5. A call whose tool name is none of the six names of the \<^verbatim>\<open>switch\<close> is answered with
  an error-shaped result (\<^verbatim>\<open>isError: true\<close>, the text naming the unknown tool), no
  implementation method is entered and no HTTP request is sent, whatever the arguments
  and the environment.
\<close>

theorem unknown_tool_rejected:
  assumes "name \<notin> set [''generate_report'', ''analyze_pull_request'',
                          ''configure_review_settings'', ''send_review_command'',
                          ''check_health'', ''create_custom_report'']"
  shows "call_tool env name args =
           \<lparr>invoked = [], sent = [],
            reply = Some \<lparr>content = [Text (''Error executing '' @ name
                                              @ '': Unknown tool: '' @ name)],
                          isError = True\<rparr>\<rparr>"
  using assms by (simp add: call_tool_def settle_def error_result_def)

theorem unknown_tool_rejected_witness:
  "call_tool \<lparr>apiKey = ''cr-key'', clock = ''2024-05-01T10:00:00.000Z'', remote = mute\<rparr> ''delete_everything'' (JObj []) =
     \<lparr>invoked = [], sent = [],
      reply = Some \<lparr>content = [Text
                       ''Error executing delete_everything: Unknown tool: delete_everything''],
                    isError = True\<rparr>\<rparr>"
  using unknown_tool_rejected [of "''delete_everything''"] by simp

section \<open>The health check\<close>

text \<open>
  With an argument object whose \<^verbatim>\<open>agentUrl\<close> is absent or can be converted to a string, the
  call is answered with a success-shaped result, and when the probe fails the text
  carries the URL and the reason.
\<close>

lemma check_health_success_shaped:
  assumes "get_prop args ''agentUrl'' = Inr given"
    and "to_string (or_js given (JStr ''http://127.0.0.1:8080'')) = Inr agentUrl"
  shows "\<exists>r. reply (call_tool env ''check_health'' args) = Some r \<and> \<not> isError r"
  using assms
  by (auto simp: call_tool_def entered_def settle_def checkHealth_def Let_def axios_def
      text_result_def
      split: option.splits axios_settled.splits net_reply.splits if_splits)

lemma check_health_unreachable:
  assumes "get_prop args ''agentUrl'' = Inr given"
    and "to_string (or_js given (JStr ''http://127.0.0.1:8080'')) = Inr agentUrl"
    and "remote env \<lparr>req_method = ''GET'', req_url = agentUrl @ ''/health'',
            req_body = Undefined, req_headers = [], req_timeout = Some 5000\<rparr> = Failed reason"
  shows "reply (call_tool env ''check_health'' args) =
     Some \<lparr>content = [Text
             (''CodeRabbit Agent Health Check\<newline>\<newline>Status: '' @ cross_mark
              @ '' Unhealthy\<newline>URL: '' @ agentUrl @ ''\<newline>Error: '' @ reason)],
           isError = False\<rparr>"
  using assms
  by (simp add: call_tool_def entered_def settle_def checkHealth_def Let_def axios_def
      text_result_def)

text \<open>
  C6, where the code departs from it. The input schema of check_health requires no
  member, and a call may come without an argument object. Then \<^verbatim>\<open>args.agentUrl\<close>, read
  before the \<^verbatim>\<open>try\<close> of \<^verbatim>\<open>checkHealth\<close>, throws: the method throws and the reply is
  error-shaped.
\<close>

theorem check_health_without_arguments:
  "call_tool \<lparr>apiKey = ''cr-key'', clock = ''2024-05-01T10:00:00.000Z'', remote = refusing\<rparr> ''check_health'' Undefined =
     \<lparr>invoked = [''checkHealth''], sent = [],
      reply = Some \<lparr>content = [Text
        ''Error executing check_health: Cannot read properties of undefined (reading 'agentUrl')''],
        isError = True\<rparr>\<rparr>"
  by (simp add: call_tool_def entered_def settle_def checkHealth_def error_result_def quoted_def)

section \<open>Review commands\<close>

lemma commandMapping_renders:
  assumes "to_string context = Inr c"
  shows "\<exists>rule hint. commandMapping context =
     Inr [(''generate docstrings'', JStr ''@coderabbitai generate docstrings''),
          (''explain reasoning'', JStr
             (''@coderabbitai Why do all of these functions need docstrings? Isn''
              @ [CHR 0x27] @ ''t it obvious enough what they do?'')),
          (''remember rule'', JStr (''@coderabbitai always remember '' @ rule)),
          (''provide context'', JStr (''@coderabbitai '' @ hint)),
          (''clarify suggestion'', JStr ''@coderabbitai Please clarify this suggestion'')]"
  using assms by (simp add: commandMapping_def and_then_def or_js_def)

text \<open>
  C7. For every call of \<^verbatim>\<open>sendReviewCommand\<close> with command \<^verbatim>\<open>generate docstrings\<close> the
  text is the fixed directive \<^verbatim>\<open>@coderabbitai generate docstrings\<close> between the fixed lead
  and the fixed sentence, followed by the note on the target files: nothing in it
  depends on the context, which may be absent, a string, or any other value that
  converts to a string. The target files are absent, or an array of strings as the input
  schema declares them, or any other value that gives a note.
\<close>

theorem generate_docstrings_directive:
  assumes "get_prop args ''command'' = Inr (JStr ''generate docstrings'')"
    and "get_prop args ''context'' = Inr context"
    and "to_string context = Inr c"
    and "get_prop args ''targetFiles'' = Inr targetFiles"
    and "target_files_note targetFiles = Inr note"
  shows "sendReviewCommand args =
     Inr (text_result
       (''CodeRabbit Command: '' @ ''@coderabbitai generate docstrings''
        @ ''\<newline>\<newline>This command can be posted as a comment in your pull request to interact with CodeRabbit.''
        @ note))"
proof -
  obtain rule hint where m: "commandMapping context =
     Inr [(''generate docstrings'', JStr ''@coderabbitai generate docstrings''),
          (''explain reasoning'', JStr
             (''@coderabbitai Why do all of these functions need docstrings? Isn''
              @ [CHR 0x27] @ ''t it obvious enough what they do?'')),
          (''remember rule'', JStr (''@coderabbitai always remember '' @ rule)),
          (''provide context'', JStr (''@coderabbitai '' @ hint)),
          (''clarify suggestion'', JStr ''@coderabbitai Please clarify this suggestion'')]"
    using commandMapping_renders [OF assms(3)] by blast
  show ?thesis
    by (simp add: sendReviewCommand_def assms m and_then_def own_or_inherited_def
        text_result_def)
qed

theorem generate_docstrings_directive_witness:
  "sendReviewCommand
     (JObj [(''command'', JStr ''generate docstrings''),
            (''context'', JStr ''Focus on public API functions'')]) =
     Inr (text_result
       (''CodeRabbit Command: '' @ ''@coderabbitai generate docstrings''
        @ ''\<newline>\<newline>This command can be posted as a comment in your pull request to interact with CodeRabbit.''))"
  using generate_docstrings_directive
      [of "JObj [(''command'', JStr ''generate docstrings''),
                 (''context'', JStr ''Focus on public API functions'')]"
          "JStr ''Focus on public API functions''" "''Focus on public API functions''"
          Undefined "[]"]
  by (simp add: own_or_inherited_def object_prototype_def target_files_note_def)

text \<open>
  Nothing checks the arguments against the input schema, so values outside the declared
  types reach the method. A context that is an object with an own \<^verbatim>\<open>toString\<close> member makes
  it throw while it builds the command table, and so does a target-files value that is a
  string.
\<close>

lemma undeclared_arguments_throw:
  "call_tool \<lparr>apiKey = ''cr-key'', clock = ''2024-05-01T10:00:00.000Z'', remote = mute\<rparr> ''send_review_command''
     (JObj [(''command'', JStr ''generate docstrings''),
            (''context'', JObj [(''toString'', Null)])]) =
     \<lparr>invoked = [''sendReviewCommand''], sent = [],
      reply = Some \<lparr>content = [Text
        ''Error executing send_review_command: Cannot convert object to primitive value''],
        isError = True\<rparr>\<rparr>
   \<and> call_tool \<lparr>apiKey = ''cr-key'', clock = ''2024-05-01T10:00:00.000Z'', remote = mute\<rparr> ''send_review_command''
     (JObj [(''command'', JStr ''generate docstrings''),
            (''context'', JStr ''Focus on public API functions''),
            (''targetFiles'', JStr ''src/api.ts'')]) =
     \<lparr>invoked = [''sendReviewCommand''], sent = [],
      reply = Some \<lparr>content = [Text
        ''Error executing send_review_command: args.targetFiles.join is not a function''],
        isError = True\<rparr>\<rparr>"
  by (simp add: call_tool_def entered_def no_io_def settle_def sendReviewCommand_def
      commandMapping_def and_then_def own_or_inherited_def object_prototype_def or_js_def
      target_files_note_def error_result_def)

text \<open>
  C10, as amended. For every call of send_review_command whose command is a string that
  is none of the five commands and names no member of \<^verbatim>\<open>Object.prototype\<close>, whose context
  can be converted to a string and whose target files give a note, the reply is
  success-shaped and its text has the word \<^verbatim>\<open>undefined\<close> in the place of the directive;
  the call is not rejected.
\<close>

theorem unknown_command_prints_undefined:
  assumes "get_prop args ''command'' = Inr (JStr k)"
    and "k \<notin> set [''generate docstrings'', ''explain reasoning'', ''remember rule'',
                    ''provide context'', ''clarify suggestion'']"
    and "object_prototype k = Undefined"
    and "get_prop args ''context'' = Inr context"
    and "to_string context = Inr c"
    and "get_prop args ''targetFiles'' = Inr targetFiles"
    and "target_files_note targetFiles = Inr note"
  shows "call_tool env ''send_review_command'' args =
     \<lparr>invoked = [''sendReviewCommand''], sent = [],
      reply = Some \<lparr>content = [Text
        (''CodeRabbit Command: '' @ ''undefined''
         @ ''\<newline>\<newline>This command can be posted as a comment in your pull request to interact with CodeRabbit.''
         @ note)],
        isError = False\<rparr>\<rparr>"
proof -
  obtain rule hint where m: "commandMapping context =
     Inr [(''generate docstrings'', JStr ''@coderabbitai generate docstrings''),
          (''explain reasoning'', JStr
             (''@coderabbitai Why do all of these functions need docstrings? Isn''
              @ [CHR 0x27] @ ''t it obvious enough what they do?'')),
          (''remember rule'', JStr (''@coderabbitai always remember '' @ rule)),
          (''provide context'', JStr (''@coderabbitai '' @ hint)),
          (''clarify suggestion'', JStr ''@coderabbitai Please clarify this suggestion'')]"
    using commandMapping_renders [OF assms(5)] by blast
  have "sendReviewCommand args = Inr (text_result
        (''CodeRabbit Command: '' @ ''undefined''
         @ ''\<newline>\<newline>This command can be posted as a comment in your pull request to interact with CodeRabbit.''
         @ note))"
    using assms(2)
    by (simp add: sendReviewCommand_def assms(1,3,4,5,6,7) m and_then_def own_or_inherited_def)
  then show ?thesis
    by (simp add: call_tool_def entered_def no_io_def settle_def text_result_def)
qed

theorem unknown_command_prints_undefined_witness:
  "call_tool \<lparr>apiKey = ''cr-key'', clock = ''2024-05-01T10:00:00.000Z'', remote = mute\<rparr> ''send_review_command''
     (JObj [(''command'', JStr ''summarize''),
            (''targetFiles'', JArr [JStr ''src/api.ts'', JStr ''src/utils.ts''])]) =
     \<lparr>invoked = [''sendReviewCommand''], sent = [],
      reply = Some \<lparr>content = [Text
        (''CodeRabbit Command: '' @ ''undefined''
         @ ''\<newline>\<newline>This command can be posted as a comment in your pull request to interact with CodeRabbit.''
         @ ''\<newline>\<newline>Target files: src/api.ts, src/utils.ts'')],
        isError = False\<rparr>\<rparr>"
  using unknown_command_prints_undefined
      [of "JObj [(''command'', JStr ''summarize''),
                 (''targetFiles'', JArr [JStr ''src/api.ts'', JStr ''src/utils.ts''])]"
          "''summarize''" Undefined "''undefined''"
          "JArr [JStr ''src/api.ts'', JStr ''src/utils.ts'']"
          "''\<newline>\<newline>Target files: src/api.ts, src/utils.ts''" "\<lparr>apiKey = ''cr-key'', clock = ''2024-05-01T10:00:00.000Z'', remote = mute\<rparr>"]
  by (simp add: own_or_inherited_def object_prototype_def target_files_note_def and_then_def)

text \<open>
  The claim as stated fails: the command \<^verbatim>\<open>toString\<close> is none of the five, and the lookup
  in the command table finds the method every object inherits, so the text shows that
  function instead of \<^verbatim>\<open>undefined\<close>; and with a target-files value that is a string the
  reply is error-shaped.
\<close>

theorem unknown_command_not_always_undefined:
  "call_tool \<lparr>apiKey = ''cr-key'', clock = ''2024-05-01T10:00:00.000Z'', remote = mute\<rparr> ''send_review_command'' (JObj [(''command'', JStr ''toString'')]) =
     \<lparr>invoked = [''sendReviewCommand''], sent = [],
      reply = Some \<lparr>content = [Text
        (''CodeRabbit Command: '' @ ''function toString() { [native code] }''
         @ ''\<newline>\<newline>This command can be posted as a comment in your pull request to interact with CodeRabbit.'')],
        isError = False\<rparr>\<rparr>
   \<and> call_tool \<lparr>apiKey = ''cr-key'', clock = ''2024-05-01T10:00:00.000Z'', remote = mute\<rparr> ''send_review_command''
     (JObj [(''command'', JStr ''summarize''), (''targetFiles'', JStr ''src/api.ts'')]) =
     \<lparr>invoked = [''sendReviewCommand''], sent = [],
      reply = Some \<lparr>content = [Text
        ''Error executing send_review_command: args.targetFiles.join is not a function''],
        isError = True\<rparr>\<rparr>"
  by (simp add: call_tool_def entered_def no_io_def settle_def sendReviewCommand_def
      commandMapping_def and_then_def own_or_inherited_def object_prototype_def or_js_def
      target_files_note_def error_result_def text_result_def)

section \<open>The tool listing\<close>

lemmas tool_defs =
  tools_def generate_report_tool_def analyze_pull_request_tool_def
  configure_review_settings_tool_def send_review_command_tool_def check_health_tool_def
  create_custom_report_tool_def

text \<open>
  C8. Whatever the environment, a list-tools request is answered with the same six
  descriptors, in the order generate_report, analyze_pull_request,
  configure_review_settings, send_review_command, check_health, create_custom_report,
  and the \<^verbatim>\<open>required\<close> member of each input schema is exactly: from, to; repository,
  pullRequestNumber; repository, configuration; command; none (the member is absent);
  template, dateRange.
\<close>

theorem list_tools_catalog:
  "serve env ListTools =
     \<lparr>invoked = [], sent = [], reply = Some (Listing (JObj [(''tools'', JArr tools)]))\<rparr>
   \<and> map (\<lambda>t. (get_prop t ''name'', required_fields t)) tools =
       [(Inr (JStr ''generate_report''), Inr (JArr [JStr ''from'', JStr ''to''])),
        (Inr (JStr ''analyze_pull_request''),
           Inr (JArr [JStr ''repository'', JStr ''pullRequestNumber''])),
        (Inr (JStr ''configure_review_settings''),
           Inr (JArr [JStr ''repository'', JStr ''configuration''])),
        (Inr (JStr ''send_review_command''), Inr (JArr [JStr ''command''])),
        (Inr (JStr ''check_health''), Inr Undefined),
        (Inr (JStr ''create_custom_report''),
           Inr (JArr [JStr ''template'', JStr ''dateRange'']))]"
  by (simp add: serve_def list_tools_def tool_defs own_or_inherited_def required_fields_def
      and_then_def object_prototype_def)

section \<open>Resources\<close>

text \<open>
  C9. Listing the resources and reading a resource involve neither the clock, nor the
  API key, nor the network, and enter no tool implementation: the same request gets the
  same answer in any two environments, so two consecutive identical requests are
  answered identically. The listing is the four descriptors, and each of the four URIs
  is answered with its own fixed body under its declared MIME type.
\<close>

theorem resources_idempotent:
  "serve env ListResources = serve env' ListResources
   \<and> serve env ListResources =
       \<lparr>invoked = [], sent = [],
        reply = Some (Listing (JObj [(''resources'', JArr resources)]))\<rparr>
   \<and> map (\<lambda>r. (get_prop r ''uri'', get_prop r ''mimeType'')) resources =
       [(Inr (JStr ''coderabbit://config/sample''), Inr (JStr ''application/yaml'')),
        (Inr (JStr ''coderabbit://commands/help''), Inr (JStr ''text/markdown'')),
        (Inr (JStr ''coderabbit://tools/astgrep''), Inr (JStr ''application/yaml'')),
        (Inr (JStr ''coderabbit://env/template''), Inr (JStr ''text/plain''))]
   \<and> serve env (ReadResource u) = serve env' (ReadResource u)
   \<and> invoked (serve env (ReadResource u)) = []
   \<and> sent (serve env (ReadResource u)) = []
   \<and> reply (serve env (ReadResource ''coderabbit://config/sample'')) =
       Some (Contents [\<lparr>res_uri = ''coderabbit://config/sample'',
                        res_mimeType = ''application/yaml'',
                        res_text = getSampleConfiguration\<rparr>])
   \<and> reply (serve env (ReadResource ''coderabbit://commands/help'')) =
       Some (Contents [\<lparr>res_uri = ''coderabbit://commands/help'',
                        res_mimeType = ''text/markdown'',
                        res_text = getCommandsHelp\<rparr>])
   \<and> reply (serve env (ReadResource ''coderabbit://tools/astgrep'')) =
       Some (Contents [\<lparr>res_uri = ''coderabbit://tools/astgrep'',
                        res_mimeType = ''application/yaml'',
                        res_text = getAstGrepExamples\<rparr>])
   \<and> reply (serve env (ReadResource ''coderabbit://env/template'')) =
       Some (Contents [\<lparr>res_uri = ''coderabbit://env/template'',
                        res_mimeType = ''text/plain'',
                        res_text = getEnvTemplate\<rparr>])"
  by (simp add: serve_def list_resources_def read_resource_def resources_def resource_def
      own_or_inherited_def)

end
